theory Spec2Isabelle
  imports Main
begin

section \<open>Data model\<close>

text \<open>
  The persistent data are declared in \<^verbatim>\<open>prisma/schema.prisma\<close>: the enum \<^verbatim>\<open>Role\<close> and
  the model \<^verbatim>\<open>Users\<close>. The relation field \<^verbatim>\<open>Tasks\<close> is virtual (it is no column of the
  table) and is left out. Timestamps are natural numbers (seconds of a clock that the
  operations receive as an argument).
\<close>

datatype Role = admin | user

text \<open>
  The values of the enum at run time are the strings of its names, which is how the
  roles guard compares them (\<^verbatim>\<open>enum Role { Admin = "admin", User = "user" }\<close>).
\<close>

fun Role_value :: "Role \<Rightarrow> string" where
  "Role_value admin = ''admin''"
| "Role_value user = ''user''"

record Users =
  Id :: int
  name :: string
  email :: string
  password :: string
  phone_number :: "string option"
  role :: Role
  createdAt :: nat
  updatedAt :: nat

text \<open>
  The state of the persistence layer behind \<^verbatim>\<open>PrismaService\<close>: the rows of the table
  \<^verbatim>\<open>Users\<close> in insertion order, the next value of the \<^verbatim>\<open>AUTO_INCREMENT\<close> counter of
  the column \<^verbatim>\<open>Id\<close>, and the collation of the text columns. The collation is given
  by the key it compares strings by: two strings are equal for the database exactly when
  their keys are. The migration creates the table with
  \<^verbatim>\<open>COLLATE utf8mb4_unicode_ci\<close>, which ignores letter case; the statements below hold
  for every collation.
\<close>

record PrismaService =
  users :: "Users list"
  autoincrement :: int
  collation :: "string \<Rightarrow> string"

text \<open>
  Everything the code throws is a value. \<^verbatim>\<open>BadRequestException\<close> and
  \<^verbatim>\<open>UnauthorizedException\<close> are the framework's HTTP exceptions, \<^verbatim>\<open>Error\<close> is the plain
  JavaScript error, and \<^verbatim>\<open>PrismaClientKnownRequestError\<close> carries the error code of a
  query the database rejected.
\<close>

datatype exception =
    BadRequestException string
  | UnauthorizedException
  | Error string
  | PrismaClientKnownRequestError string

text \<open>
  The status of the response an exception is turned into: the HTTP exceptions carry
  their own status, anything else that escapes a handler is answered with 500.
\<close>

fun getStatus :: "exception \<Rightarrow> nat" where
  "getStatus (BadRequestException m) = 400"
| "getStatus UnauthorizedException = 401"
| "getStatus (Error m) = 500"
| "getStatus (PrismaClientKnownRequestError c) = 500"

section \<open>The persistence layer\<close>

text \<open>
  The text columns of the table are \<^verbatim>\<open>VARCHAR(191)\<close> (\<^verbatim>\<open>migration.sql\<close>): a value of
  more than 191 characters does not fit.
\<close>

definition VARCHAR :: "nat \<Rightarrow> string \<Rightarrow> bool" where
  "VARCHAR n s \<longleftrightarrow> length s \<le> n"

text \<open>
  \<^verbatim>\<open>prisma.users.findUnique({ where: { email } })\<close> and
  \<^verbatim>\<open>prisma.users.findUnique({ where: { Id } })\<close>: a point lookup on a unique column. The
  database compares emails under the collation of the column and numbers exactly. Both
  are read queries: they return a row or nothing and leave the table alone.
\<close>

definition findUnique_email :: "string \<Rightarrow> PrismaService \<Rightarrow> Users option" where
  "findUnique_email e db =
     find (\<lambda>u. collation db (Users.email u) = collation db e) (users db)"

definition findUnique_Id :: "int \<Rightarrow> PrismaService \<Rightarrow> Users option" where
  "findUnique_Id i db = find (\<lambda>u. Users.Id u = i) (users db)"

text \<open>
  \<^verbatim>\<open>prisma.users.create({ data: { email, name, password } })\<close>. The columns the caller
  does not supply take the defaults of the schema: \<^verbatim>\<open>Id\<close> the counter
  (\<^verbatim>\<open>@default(autoincrement())\<close>), \<^verbatim>\<open>role\<close> the value \<^verbatim>\<open>user\<close> (\<^verbatim>\<open>@default(user)\<close>),
  \<^verbatim>\<open>phone_number\<close> null, \<^verbatim>\<open>createdAt\<close> and \<^verbatim>\<open>updatedAt\<close> the time of the insert. The
  database rejects the insert, and writes nothing, when a value is too long for its
  column (error code P2000, under the strict mode that is the server's default) and when
  the unique index on \<^verbatim>\<open>email\<close> already holds an email that is equal under the
  collation (error code P2002).
\<close>

definition create :: "string \<Rightarrow> string \<Rightarrow> string \<Rightarrow> nat \<Rightarrow> PrismaService
    \<Rightarrow> (exception + Users) \<times> PrismaService" where
  "create e n p now db =
     (if \<not> (VARCHAR 191 n \<and> VARCHAR 191 e \<and> VARCHAR 191 p)
      then (Inl (PrismaClientKnownRequestError ''P2000''), db)
      else if collation db e \<in> set (map (\<lambda>u. collation db (Users.email u)) (users db))
      then (Inl (PrismaClientKnownRequestError ''P2002''), db)
      else
        let row = \<lparr>Id = autoincrement db, name = n, email = e, password = p,
                   phone_number = None, role = user, createdAt = now, updatedAt = now\<rparr>
        in (Inr row, db\<lparr>users := users db @ [row], autoincrement := autoincrement db + 1\<rparr>))"

text \<open>
  What the schema promises of every state of the table: \<^verbatim>\<open>Id\<close> is unique, \<^verbatim>\<open>email\<close> is
  unique under the collation (\<^verbatim>\<open>@unique\<close>), and the counter lies above every \<^verbatim>\<open>Id\<close> in
  use.
\<close>

definition schema_ok :: "PrismaService \<Rightarrow> bool" where
  "schema_ok db \<longleftrightarrow>
     distinct (map Users.Id (users db)) \<and>
     distinct (map (\<lambda>u. collation db (Users.email u)) (users db)) \<and>
     list_all (\<lambda>u. Users.Id u < autoincrement db) (users db)"

section \<open>The libraries the flow calls\<close>

subsection \<open>bcrypt\<close>

text \<open>
  The password hasher is a library. It is a parameter of the model: \<^verbatim>\<open>hash\<close> takes the
  plaintext, the cost (the number of salt rounds) and the salt the library draws at
  random for this call; \<^verbatim>\<open>compare\<close> takes a plaintext and a stored hash.
\<close>

record bcrypt =
  hash :: "string \<Rightarrow> nat \<Rightarrow> string \<Rightarrow> string"
  compare :: "string \<Rightarrow> string \<Rightarrow> bool"

text \<open>
  \<^verbatim>\<open>utils/password.util.ts\<close>. The second parameter of \<^verbatim>\<open>hashPassword\<close> is called
  \<^verbatim>\<open>salt\<close> in the source and is the cost; the call in \<^verbatim>\<open>register\<close> leaves it at its
  default, 10.
\<close>

definition hashPassword :: "bcrypt \<Rightarrow> string \<Rightarrow> nat \<Rightarrow> string \<Rightarrow> string" where
  "hashPassword b pw salt drawn = bcrypt.hash b pw salt drawn"

definition validatePassword :: "bcrypt \<Rightarrow> string \<Rightarrow> string \<Rightarrow> bool" where
  "validatePassword b pw hashedPassword = bcrypt.compare b pw hashedPassword"

subsection \<open>Configuration\<close>

text \<open>
  The two options the flow reads from \<^verbatim>\<open>ConfigService\<close>. The values come from the
  environment, so each is a string, or missing (\<^verbatim>\<open>config.get\<close> then returns
  \<^verbatim>\<open>undefined\<close>).
\<close>

record ConfigService =
  JWT_SECRET :: "string option"
  JWT_EXPIRES_IN :: "string option"

subsection \<open>JSON Web Tokens\<close>

text \<open>
  \<^verbatim>\<open>interface Payload { sub: number; email: string }\<close> is what \<^verbatim>\<open>login\<close> signs. A token
  is modelled symbolically: the payload, the time of issue, the expiry the library adds,
  and the key it was signed with, which stands for the signature. Verifying succeeds
  exactly for the key that signed and before the expiry.
\<close>

record Payload =
  sub :: int
  email :: string

record Token =
  payload :: Payload
  iat :: nat
  expiry :: "int option"
  signed_with :: string

text \<open>
  How the signing library reads a lifetime that is given as a string is a parameter of
  the model: \<^verbatim>\<open>timespan\<close> gives the whole seconds the library adds to the time of issue,
  or nothing for a string it cannot read. (The library reads a string of digits as
  milliseconds and a string such as \<^verbatim>\<open>1h\<close> with its unit.)
\<close>

record JwtService =
  timespan :: "string \<Rightarrow> int option"

text \<open>The messages of the two errors the library has for the option \<^verbatim>\<open>expiresIn\<close>.\<close>

definition expiresIn_invalid :: string where
  \<open>expiresIn_invalid =
     ''"expiresIn" should be a number of seconds or string representing a timespan''\<close>

definition expiresIn_unreadable :: string where
  \<open>expiresIn_unreadable =
     ''"expiresIn" should be a number of seconds or string representing a timespan eg: "1d", "20h", 60''\<close>

text \<open>
  \<^verbatim>\<open>jwt.signAsync(payload, { expiresIn, secret })\<close>. The library refuses to sign without a
  secret (none, or the empty string). The call always passes the option \<^verbatim>\<open>expiresIn\<close>,
  so the library validates it: an undefined or empty value is invalid, and a string that
  is no timespan is refused as well.
\<close>

definition signAsync :: "JwtService \<Rightarrow> Payload \<Rightarrow> string option \<Rightarrow> string option \<Rightarrow> nat
    \<Rightarrow> exception + Token" where
  "signAsync jwt p expiresIn secret now =
     (case secret of
        None \<Rightarrow> Inl (Error ''secretOrPrivateKey must have a value'')
      | Some s \<Rightarrow>
          if s = [] then Inl (Error ''secretOrPrivateKey must have a value'')
          else
            (case expiresIn of
               None \<Rightarrow> Inl (Error expiresIn_invalid)
             | Some e \<Rightarrow>
                 if e = [] then Inl (Error expiresIn_invalid)
                 else
                   (case timespan jwt e of
                      None \<Rightarrow> Inl (Error expiresIn_unreadable)
                    | Some d \<Rightarrow>
                        Inr \<lparr>payload = p, iat = now, expiry = Some (int now + d),
                             signed_with = s\<rparr>)))"

definition verify :: "Token \<Rightarrow> string \<Rightarrow> nat \<Rightarrow> Payload option" where
  "verify t secretOrKey now =
     (if signed_with t = secretOrKey
         \<and> (case expiry t of None \<Rightarrow> True | Some e \<Rightarrow> int now < e)
      then Some (payload t) else None)"

section \<open>AuthService\<close>

text \<open>\<^verbatim>\<open>auth/DTO/auth.dto.ts\<close>: the shapes of the two request bodies.\<close>

record RegisterDto =
  name :: string
  email :: string
  password :: string

record LoginDto =
  email :: string
  password :: string

text \<open>The two values the service returns.\<close>

record RegisteredUser =
  id :: int
  email :: string

record RegisterResponse =
  success :: bool
  message :: string
  user :: RegisteredUser

record LoginResponse =
  access_token :: Token

definition checkExistingUser :: "string \<Rightarrow> PrismaService \<Rightarrow> Users option" where
  "checkExistingUser e db = findUnique_email e db"

text \<open>
  \<^verbatim>\<open>generateToken\<close> asks the configuration service for the lifetime and the secret each
  time it is called.
\<close>

definition generateToken :: "JwtService \<Rightarrow> ConfigService \<Rightarrow> Payload \<Rightarrow> nat
    \<Rightarrow> exception + Token" where
  "generateToken jwt config p now =
     signAsync jwt p (JWT_EXPIRES_IN config) (JWT_SECRET config) now"

text \<open>
  \<^verbatim>\<open>AuthService.register\<close>. Besides the request body it receives what the run draws
  from outside: the salt of the hasher and the time of the insert.
\<close>

definition register :: "bcrypt \<Rightarrow> RegisterDto \<Rightarrow> string \<Rightarrow> nat \<Rightarrow> PrismaService
    \<Rightarrow> (exception + RegisterResponse) \<times> PrismaService" where
  "register b dto drawn now db =
     (case checkExistingUser (RegisterDto.email dto) db of
        Some existingUser \<Rightarrow> (Inl (BadRequestException ''User already exists''), db)
      | None \<Rightarrow>
          let hashedPassword = hashPassword b (RegisterDto.password dto) 10 drawn in
          (case create (RegisterDto.email dto) (RegisterDto.name dto) hashedPassword now db of
             (Inl e, db') \<Rightarrow> (Inl e, db')
           | (Inr u, db') \<Rightarrow>
               (Inr \<lparr>success = True, message = ''User registered successfully'',
                     user = \<lparr>id = Users.Id u, email = Users.email u\<rparr>\<rparr>, db')))"

text \<open>\<^verbatim>\<open>AuthService.login\<close>.\<close>

definition login :: "bcrypt \<Rightarrow> JwtService \<Rightarrow> ConfigService \<Rightarrow> LoginDto \<Rightarrow> nat
    \<Rightarrow> PrismaService \<Rightarrow> (exception + LoginResponse) \<times> PrismaService" where
  "login b jwt config dto now db =
     (case checkExistingUser (LoginDto.email dto) db of
        None \<Rightarrow> (Inl (BadRequestException ''Invalid credentials''), db)
      | Some existingUser \<Rightarrow>
          if \<not> validatePassword b (LoginDto.password dto) (Users.password existingUser)
          then (Inl (BadRequestException ''Invalid credentials''), db)
          else
            (case generateToken jwt config
                    \<lparr>sub = Users.Id existingUser, email = Users.email existingUser\<rparr> now of
               Inl e \<Rightarrow> (Inl e, db)
             | Inr token \<Rightarrow> (Inr \<lparr>access_token = token\<rparr>, db)))"

section \<open>JwtStrategy\<close>

record JwtStrategy =
  secretOrKey :: string

text \<open>
  The constructor: \<^verbatim>\<open>!jwtSecret\<close> holds for a missing secret and for the empty string.
\<close>

definition JwtStrategy_constructor :: "ConfigService \<Rightarrow> exception + JwtStrategy" where
  "JwtStrategy_constructor config =
     (case JWT_SECRET config of
        None \<Rightarrow> Inl (Error ''JWT_SECRET is not defined in the configuration'')
      | Some jwtSecret \<Rightarrow>
          if jwtSecret = [] then Inl (Error ''JWT_SECRET is not defined in the configuration'')
          else Inr \<lparr>secretOrKey = jwtSecret\<rparr>)"

text \<open>The identity \<^verbatim>\<open>validate\<close> returns, which the framework attaches to the request.\<close>

record Identity =
  userId :: int
  name :: string
  email :: string
  role :: Role

definition validate :: "Payload \<Rightarrow> PrismaService \<Rightarrow> (exception + Identity) \<times> PrismaService" where
  "validate p db =
     (case findUnique_Id (sub p) db of
        None \<Rightarrow> (Inl (Error ''Unauthorized''), db)
      | Some u \<Rightarrow>
          (Inr \<lparr>userId = Users.Id u, name = Users.name u, email = Users.email u,
                role = Users.role u\<rparr>, db))"

text \<open>
  Resolving the identity of a request: the strategy verifies the bearer token with its
  key (a token that fails is rejected by the framework with its
  \<^verbatim>\<open>UnauthorizedException\<close>) and hands the payload to \<^verbatim>\<open>validate\<close>; what \<^verbatim>\<open>validate\<close>
  throws reaches the caller as it is.
\<close>

definition authenticate :: "JwtStrategy \<Rightarrow> Token \<Rightarrow> nat \<Rightarrow> PrismaService
    \<Rightarrow> (exception + Identity) \<times> PrismaService" where
  "authenticate strategy t now db =
     (case verify t (secretOrKey strategy) now of
        None \<Rightarrow> (Inl UnauthorizedException, db)
      | Some p \<Rightarrow> validate p db)"

section \<open>RolesGuard\<close>

text \<open>
  \<^verbatim>\<open>RolesGuard.canActivate\<close>. The metadata \<^verbatim>\<open>roles\<close> of the handler is a list of strings,
  or undefined when the handler carries no \<^verbatim>\<open>@Roles\<close> decorator; \<^verbatim>\<open>!roles\<close> holds for
  undefined only (an empty array is truthy).
\<close>

definition canActivate :: "string list option \<Rightarrow> Identity \<Rightarrow> bool" where
  "canActivate roles u =
     (case roles of
        None \<Rightarrow> True
      | Some rs \<Rightarrow> Role_value (Identity.role u) \<in> set rs)"

section \<open>Concrete inputs\<close>

text \<open>
  The key of \<^verbatim>\<open>utf8mb4_unicode_ci\<close> on the strings used below: ASCII letters are compared
  without regard to case.
\<close>

definition lower :: "char \<Rightarrow> char" where
  "lower c =
     (case map_of (zip ''ABCDEFGHIJKLMNOPQRSTUVWXYZ'' ''abcdefghijklmnopqrstuvwxyz'') c of
        None \<Rightarrow> c
      | Some l \<Rightarrow> l)"

definition utf8mb4_unicode_ci :: "string \<Rightarrow> string" where
  "utf8mb4_unicode_ci s = map lower s"

text \<open>
  Stand-ins for the two libraries, to run the model on concrete inputs. The hash is the
  drawn salt followed by the reversed plaintext, and comparing looks for the reversed
  plaintext at the end of the hash. The timespan reader knows two strings: an hour, and
  the digits that the library takes for 3600 milliseconds. Nothing below is proved about
  them except by evaluation; the general statements hold for every hasher and reader.
\<close>

definition stub_bcrypt :: bcrypt where
  "stub_bcrypt =
     \<lparr>hash = (\<lambda>pw cost drawn. drawn @ rev pw),
      compare = (\<lambda>pw h. drop (length h - length pw) h = rev pw)\<rparr>"

definition stub_jwt :: JwtService where
  "stub_jwt =
     \<lparr>timespan = (\<lambda>s. if s = ''1h'' then Some 3600 else if s = ''3600'' then Some 3 else None)\<rparr>"

definition empty_db :: PrismaService where
  "empty_db = \<lparr>users = [], autoincrement = 1, collation = utf8mb4_unicode_ci\<rparr>"

definition jane :: RegisterDto where
  "jane = \<lparr>RegisterDto.name = ''Jane'', email = ''jane@x.com'', password = ''secret12''\<rparr>"



definition jane_row :: Users where
  "jane_row =
     \<lparr>Id = 1, name = ''Jane'', email = ''jane@x.com'', password = ''salt21terces'',
      phone_number = None, role = Role.user, createdAt = 5, updatedAt = 5\<rparr>"

definition jane_db :: PrismaService where
  "jane_db = \<lparr>users = [jane_row], autoincrement = 2, collation = utf8mb4_unicode_ci\<rparr>"

definition jane_config :: ConfigService where
  "jane_config = \<lparr>JWT_SECRET = Some ''s3cret'', JWT_EXPIRES_IN = Some ''1h''\<rparr>"

definition jane_token :: Token where
  "jane_token =
     \<lparr>payload = \<lparr>sub = 1, email = ''jane@x.com''\<rparr>, iat = 7, expiry = Some 3607,
      signed_with = ''s3cret''\<rparr>"

text \<open>Evaluating the collation key on the emails of the concrete inputs.\<close>

lemma collation_keys [simp]:
  "utf8mb4_unicode_ci ''jane@x.com'' = ''jane@x.com''"
  "utf8mb4_unicode_ci ''JANE@x.com'' = ''jane@x.com''"
  "utf8mb4_unicode_ci ''long@x.com'' = ''long@x.com''"
  "utf8mb4_unicode_ci ''nobody@x.com'' = ''nobody@x.com''"
  by (simp_all add: utf8mb4_unicode_ci_def lower_def)

section \<open>Lookups and inserts\<close>

lemma findUnique_email_None:
  "findUnique_email e db = None \<longleftrightarrow>
     collation db e \<notin> (\<lambda>u. collation db (Users.email u)) ` set (users db)"
  by (auto simp: findUnique_email_def find_None_iff image_iff)

lemma findUnique_email_Some:
  "findUnique_email e db = Some u
     \<Longrightarrow> u \<in> set (users db) \<and> collation db (Users.email u) = collation db e"
  by (auto simp: findUnique_email_def find_Some_iff)

text \<open>An email that a row carries letter for letter is found, whatever the collation.\<close>

lemma findUnique_email_exact:
  "e \<in> Users.email ` set (users db) \<Longrightarrow> \<exists>u. findUnique_email e db = Some u"
  by (cases "findUnique_email e db") (auto simp: findUnique_email_None)

lemma findUnique_Id_None:
  "findUnique_Id i db = None \<longleftrightarrow> i \<notin> Users.Id ` set (users db)"
  by (auto simp: findUnique_Id_def find_None_iff)

lemma findUnique_Id_Some:
  "findUnique_Id i db = Some u \<Longrightarrow> u \<in> set (users db) \<and> Users.Id u = i"
  by (auto simp: findUnique_Id_def find_Some_iff)

text \<open>On a unique column the lookup returns the row that carries the value.\<close>

lemma find_unique_key:
  "distinct (map f xs) \<Longrightarrow> x \<in> set xs \<Longrightarrow> find (\<lambda>y. f y = f x) xs = Some x"
  by (induction xs) (auto simp: image_iff)

lemma findUnique_email_row:
  assumes "distinct (map (\<lambda>u. collation db (Users.email u)) (users db))"
    and "u \<in> set (users db)"
  shows "findUnique_email (Users.email u) db = Some u"
  unfolding findUnique_email_def
  using find_unique_key [where f = "\<lambda>u. collation db (Users.email u)", OF assms] .

lemma findUnique_Id_row:
  "distinct (map Users.Id (users db)) \<Longrightarrow> u \<in> set (users db)
     \<Longrightarrow> findUnique_Id (Users.Id u) db = Some u"
  by (simp add: findUnique_Id_def find_unique_key)


text \<open>The outcomes of \<^verbatim>\<open>register\<close>, one per path through it.\<close>

lemma register_existing:
  "checkExistingUser (RegisterDto.email dto) db = Some u
     \<Longrightarrow> register b dto drawn now db = (Inl (BadRequestException ''User already exists''), db)"
  by (simp add: register_def)

lemma register_too_long:
  assumes "checkExistingUser (RegisterDto.email dto) db = None"
    and "\<not> (VARCHAR 191 (RegisterDto.name dto) \<and> VARCHAR 191 (RegisterDto.email dto)
            \<and> VARCHAR 191 (bcrypt.hash b (RegisterDto.password dto) 10 drawn))"
  shows "register b dto drawn now db = (Inl (PrismaClientKnownRequestError ''P2000''), db)"
proof -
  have "create (RegisterDto.email dto) (RegisterDto.name dto)
      (bcrypt.hash b (RegisterDto.password dto) 10 drawn) now db =
      (Inl (PrismaClientKnownRequestError ''P2000''), db)"
    using assms(2) by (simp add: create_def)
  then show ?thesis
    using assms(1) by (simp add: register_def hashPassword_def)
qed

lemma register_fresh:
  assumes "checkExistingUser (RegisterDto.email dto) db = None"
    and "VARCHAR 191 (RegisterDto.name dto)" and "VARCHAR 191 (RegisterDto.email dto)"
    and "VARCHAR 191 (bcrypt.hash b (RegisterDto.password dto) 10 drawn)"
  shows "register b dto drawn now db =
          (Inr \<lparr>success = True, message = ''User registered successfully'',
                user = \<lparr>id = autoincrement db, email = RegisterDto.email dto\<rparr>\<rparr>,
           db\<lparr>users := users db @
                  [\<lparr>Id = autoincrement db, name = RegisterDto.name dto,
                    email = RegisterDto.email dto,
                    password = bcrypt.hash b (RegisterDto.password dto) 10 drawn,
                    phone_number = None, role = Role.user,
                    createdAt = now, updatedAt = now\<rparr>],
               autoincrement := autoincrement db + 1\<rparr>)"
proof -
  have "collation db (RegisterDto.email dto)
      \<notin> (\<lambda>u. collation db (Users.email u)) ` set (users db)"
    using assms(1) by (simp add: checkExistingUser_def findUnique_email_None)
  then have "create (RegisterDto.email dto) (RegisterDto.name dto)
      (bcrypt.hash b (RegisterDto.password dto) 10 drawn) now db =
      (Inr \<lparr>Id = autoincrement db, name = RegisterDto.name dto,
            email = RegisterDto.email dto,
            password = bcrypt.hash b (RegisterDto.password dto) 10 drawn,
            phone_number = None, role = Role.user, createdAt = now, updatedAt = now\<rparr>,
       db\<lparr>users := users db @
              [\<lparr>Id = autoincrement db, name = RegisterDto.name dto,
                email = RegisterDto.email dto,
                password = bcrypt.hash b (RegisterDto.password dto) 10 drawn,
                phone_number = None, role = Role.user,
                createdAt = now, updatedAt = now\<rparr>],
           autoincrement := autoincrement db + 1\<rparr>)"
    using assms(2-4) by (simp add: create_def Let_def)
  then show ?thesis
    using assms(1) by (simp add: register_def hashPassword_def)
qed

text \<open>\<^verbatim>\<open>register\<close> keeps the promises of the schema.\<close>

lemma register_schema_ok:
  assumes "schema_ok db" and "register b dto drawn now db = (res, db')"
  shows "schema_ok db'"
proof (cases "checkExistingUser (RegisterDto.email dto) db")
  case None
  show ?thesis
  proof (cases "VARCHAR 191 (RegisterDto.name dto) \<and> VARCHAR 191 (RegisterDto.email dto)
      \<and> VARCHAR 191 (bcrypt.hash b (RegisterDto.password dto) 10 drawn)")
    case True
    have fresh: "collation db (RegisterDto.email dto)
        \<notin> (\<lambda>u. collation db (Users.email u)) ` set (users db)"
      using None by (simp add: checkExistingUser_def findUnique_email_None)
    have ids: "autoincrement db \<notin> Users.Id ` set (users db)"
      using assms(1) by (auto simp: schema_ok_def list_all_iff)
    have below: "Users.Id u \<le> autoincrement db" if "u \<in> set (users db)" for u
      using assms(1) that by (force simp: schema_ok_def list_all_iff)
    have "db' = db\<lparr>users := users db @
                  [\<lparr>Id = autoincrement db, name = RegisterDto.name dto,
                    email = RegisterDto.email dto,
                    password = bcrypt.hash b (RegisterDto.password dto) 10 drawn,
                    phone_number = None, role = Role.user,
                    createdAt = now, updatedAt = now\<rparr>],
               autoincrement := autoincrement db + 1\<rparr>"
      using assms(2) True register_fresh [OF None, of b drawn now] by simp
    then show ?thesis
      using assms(1) fresh ids below by (auto simp: schema_ok_def list_all_iff)
  next
    case False
    then show ?thesis
      using assms register_too_long [OF None False, of now] by simp
  qed
next
  case (Some u)
  then show ?thesis
    using assms register_existing [OF Some, of b drawn now] by simp
qed

text \<open>The outcomes of \<^verbatim>\<open>login\<close>, one per branch.\<close>

lemma login_absent:
  "checkExistingUser (LoginDto.email dto) db = None
     \<Longrightarrow> login b jwt c dto now db = (Inl (BadRequestException ''Invalid credentials''), db)"
  by (simp add: login_def)

lemma login_wrong_password:
  "checkExistingUser (LoginDto.email dto) db = Some u
     \<Longrightarrow> \<not> validatePassword b (LoginDto.password dto) (Users.password u)
     \<Longrightarrow> login b jwt c dto now db = (Inl (BadRequestException ''Invalid credentials''), db)"
  by (simp add: login_def)

lemma login_right_password:
  "checkExistingUser (LoginDto.email dto) db = Some u
     \<Longrightarrow> validatePassword b (LoginDto.password dto) (Users.password u)
     \<Longrightarrow> login b jwt c dto now db =
          (case generateToken jwt c \<lparr>sub = Users.Id u, email = Users.email u\<rparr> now of
             Inl e \<Rightarrow> (Inl e, db)
           | Inr token \<Rightarrow> (Inr \<lparr>access_token = token\<rparr>, db))"
  by (simp add: login_def)

text \<open>What \<^verbatim>\<open>generateToken\<close> returns: a token, or one of the plain errors of the library.\<close>

lemma generateToken_Inr:
  "generateToken jwt c p now = Inr t \<longleftrightarrow>
     (\<exists>s e d. JWT_SECRET c = Some s \<and> s \<noteq> [] \<and> JWT_EXPIRES_IN c = Some e \<and> e \<noteq> []
        \<and> timespan jwt e = Some d
        \<and> t = \<lparr>payload = p, iat = now, expiry = Some (int now + d), signed_with = s\<rparr>)"
  by (auto simp: generateToken_def signAsync_def split: option.splits)

lemma generateToken_Inl:
  "generateToken jwt c p now = Inl x \<Longrightarrow> \<exists>m. x = Error m"
  by (auto simp: generateToken_def signAsync_def split: option.splits if_splits)


lemma JwtStrategy_constructor_Inr:
  "JwtStrategy_constructor c = Inr s \<longleftrightarrow> JWT_SECRET c = Some (secretOrKey s) \<and> secretOrKey s \<noteq> []"
  by (cases s) (auto simp: JwtStrategy_constructor_def split: option.splits)

text \<open>\<^verbatim>\<open>validate\<close> and \<^verbatim>\<open>authenticate\<close> return the store they were given.\<close>

lemma validate_store: "snd (validate p db) = db"
  by (simp add: validate_def split: option.splits)

lemma authenticate_store: "snd (authenticate s t now db) = db"
  by (simp add: authenticate_def validate_store split: option.splits)

section \<open>Registration\<close>







text \<open>
  C8: whatever the request, a successful \<^verbatim>\<open>register\<close> appends one row, the one whose id
  the acknowledgment carries, and its role is user; a failed one leaves the store as it
  was. In either case the rows with role admin are the same before and after: no request
  to \<^verbatim>\<open>register\<close> creates an admin.
\<close>

theorem register_role_is_user:
  assumes "register b dto drawn now db = (res, db')"
  shows "(\<forall>r. res = Inr r \<longrightarrow>
            (\<exists>u. users db' = users db @ [u] \<and> Users.role u = Role.user
                 \<and> Users.Id u = RegisteredUser.id (RegisterResponse.user r)))
       \<and> (\<forall>e. res = Inl e \<longrightarrow> db' = db)
       \<and> filter (\<lambda>u. Users.role u = Role.admin) (users db') =
           filter (\<lambda>u. Users.role u = Role.admin) (users db)"
proof (cases "checkExistingUser (RegisterDto.email dto) db")
  case None
  show ?thesis
  proof (cases "VARCHAR 191 (RegisterDto.name dto) \<and> VARCHAR 191 (RegisterDto.email dto)
      \<and> VARCHAR 191 (bcrypt.hash b (RegisterDto.password dto) 10 drawn)")
    case True
    then show ?thesis
      using assms register_fresh [OF None, of b drawn now] by auto
  next
    case False
    show ?thesis
      using assms register_too_long [OF None False, of now] by auto
  qed
next
  case (Some u)
  show ?thesis
    using assms register_existing [OF Some, of b drawn now] by auto
qed

theorem register_role_is_user_witness:
  "map Users.role (users jane_db) = [Role.user]
   \<and> filter (\<lambda>u. Users.role u = Role.admin) (users jane_db) = []"
proof -
  have run: "register stub_bcrypt jane ''salt'' 5 empty_db =
      (Inr \<lparr>success = True, message = ''User registered successfully'',
            user = \<lparr>id = 1, email = ''jane@x.com''\<rparr>\<rparr>, jane_db)"
    by (simp add: register_def checkExistingUser_def findUnique_email_def create_def
        hashPassword_def VARCHAR_def jane_def empty_db_def jane_db_def jane_row_def
        stub_bcrypt_def Let_def)
  show ?thesis
    using register_role_is_user [OF run]
    by (auto simp: empty_db_def)
qed

section \<open>Login\<close>

text \<open>
  C3, as the code has it: a login whose email equals the email of no row under the
  collation of the column, and a login whose email is found but whose password the hasher
  rejects against the stored hash, fail with equal errors: in both cases the bad-request
  exception with the message `Invalid credentials', and the store is returned as it was.
  This holds for any two stores, configurations and times.
\<close>

theorem login_failures_equal:
  assumes absent: "collation db1 (LoginDto.email dto1)
                     \<notin> (\<lambda>u. collation db1 (Users.email u)) ` set (users db1)"
    and found: "checkExistingUser (LoginDto.email dto2) db2 = Some u"
    and rejected: "\<not> validatePassword b (LoginDto.password dto2) (Users.password u)"
  shows "login b jwt c1 dto1 now1 db1 = (Inl (BadRequestException ''Invalid credentials''), db1)
       \<and> login b jwt c2 dto2 now2 db2 = (Inl (BadRequestException ''Invalid credentials''), db2)
       \<and> fst (login b jwt c1 dto1 now1 db1) = fst (login b jwt c2 dto2 now2 db2)"
proof -
  have "checkExistingUser (LoginDto.email dto1) db1 = None"
    using absent by (simp add: checkExistingUser_def findUnique_email_None)
  then have "login b jwt c1 dto1 now1 db1 =
      (Inl (BadRequestException ''Invalid credentials''), db1)"
    by (rule login_absent)
  moreover have "login b jwt c2 dto2 now2 db2 =
      (Inl (BadRequestException ''Invalid credentials''), db2)"
    using found rejected by (rule login_wrong_password)
  ultimately show ?thesis by simp
qed

theorem login_failures_equal_witness:
  "fst (login stub_bcrypt stub_jwt jane_config
          \<lparr>LoginDto.email = ''nobody@x.com'', password = ''secret12''\<rparr> 7 jane_db) =
   fst (login stub_bcrypt stub_jwt jane_config
          \<lparr>LoginDto.email = ''jane@x.com'', password = ''wrong''\<rparr> 7 jane_db)
   \<and> fst (login stub_bcrypt stub_jwt jane_config
          \<lparr>LoginDto.email = ''jane@x.com'', password = ''wrong''\<rparr> 7 jane_db) =
       Inl (BadRequestException ''Invalid credentials'')"
proof -
  have absent: "collation jane_db
        (LoginDto.email \<lparr>LoginDto.email = ''nobody@x.com'', password = ''secret12''\<rparr>)
      \<notin> (\<lambda>u. collation jane_db (Users.email u)) ` set (users jane_db)"
    by (simp add: jane_db_def jane_row_def)
  have found: "checkExistingUser
      (LoginDto.email \<lparr>LoginDto.email = ''jane@x.com'', password = ''wrong''\<rparr>) jane_db =
      Some jane_row"
    by (simp add: checkExistingUser_def findUnique_email_def jane_db_def jane_row_def)
  have rejected: "\<not> validatePassword stub_bcrypt
      (LoginDto.password \<lparr>LoginDto.email = ''jane@x.com'', password = ''wrong''\<rparr>)
      (Users.password jane_row)"
    by (simp add: validatePassword_def stub_bcrypt_def jane_row_def)
  show ?thesis
    using login_failures_equal [OF absent found rejected,
        of stub_jwt jane_config 7 jane_config 7]
    by simp
qed

text \<open>
  C3 as the specification words it: a login with an email that is absent from the store
  fails with `Invalid credentials'. The store that holds jane@x.com does not hold the
  string JANE@x.com, yet a login with that email and the password of Jane finds her row,
  because the column compares without regard to case, and returns a token.
\<close>

theorem login_failures_equal_counterexample:
  "''JANE@x.com'' \<notin> Users.email ` set (users jane_db)
   \<and> login stub_bcrypt stub_jwt jane_config
        \<lparr>LoginDto.email = ''JANE@x.com'', password = ''secret12''\<rparr> 7 jane_db =
       (Inr \<lparr>access_token = jane_token\<rparr>, jane_db)"
  by (simp add: login_def checkExistingUser_def findUnique_email_def validatePassword_def
      generateToken_def signAsync_def stub_bcrypt_def stub_jwt_def jane_db_def jane_row_def
      jane_config_def jane_token_def)

text \<open>
  C4: let u be a row of a store in which \<^verbatim>\<open>Id\<close> is unique and \<^verbatim>\<open>email\<close> is unique under
  the collation, as the schema declares them, and let the strategy be constructed from
  the configuration that the login reads. A login with the email of u succeeds when the
  hasher accepts the password against the stored hash and the library can read the
  configured lifetime. Every successful login with the email of u returns a token whose
  payload is the id of u as subject and the email of u, and leaves the store as it was;
  the strategy resolves that token, at any time before its expiry and on the same store,
  to the identity of u: its id, name, email and role.
\<close>

theorem login_then_authenticate:
  assumes ids: "distinct (map Users.Id (users db))"
    and mails: "distinct (map (\<lambda>u. collation db (Users.email u)) (users db))"
    and row: "u \<in> set (users db)"
    and mail: "LoginDto.email dto = Users.email u"
    and constructed: "JwtStrategy_constructor c = Inr s"
  shows "(validatePassword b (LoginDto.password dto) (Users.password u)
            \<and> JWT_EXPIRES_IN c = Some e \<and> e \<noteq> [] \<and> timespan jwt e = Some d \<longrightarrow>
          login b jwt c dto now db =
            (Inr \<lparr>access_token =
               \<lparr>payload = \<lparr>sub = Users.Id u, email = Users.email u\<rparr>, iat = now,
                expiry = Some (int now + d), signed_with = secretOrKey s\<rparr>\<rparr>, db))
       \<and> (\<forall>r db'. login b jwt c dto now db = (Inr r, db')
              \<and> (case expiry (access_token r) of None \<Rightarrow> True | Some x \<Rightarrow> int now' < x) \<longrightarrow>
            payload (access_token r) = \<lparr>sub = Users.Id u, email = Users.email u\<rparr>
            \<and> db' = db
            \<and> authenticate s (access_token r) now' db =
                (Inr \<lparr>userId = Users.Id u, name = Users.name u, email = Users.email u,
                      role = Users.role u\<rparr>, db))"
proof -
  have secret: "JWT_SECRET c = Some (secretOrKey s)" "secretOrKey s \<noteq> []"
    using constructed by (simp_all add: JwtStrategy_constructor_Inr)
  have found: "checkExistingUser (LoginDto.email dto) db = Some u"
    using mails row mail by (simp add: checkExistingUser_def findUnique_email_row)
  have by_id: "findUnique_Id (Users.Id u) db = Some u"
    using ids row by (rule findUnique_Id_row)
  have issue: "login b jwt c dto now db =
      (Inr \<lparr>access_token =
         \<lparr>payload = \<lparr>sub = Users.Id u, email = Users.email u\<rparr>, iat = now,
          expiry = Some (int now + d), signed_with = secretOrKey s\<rparr>\<rparr>, db)"
    if accepted: "validatePassword b (LoginDto.password dto) (Users.password u)"
      and lifetime: "JWT_EXPIRES_IN c = Some e" "e \<noteq> []" "timespan jwt e = Some d"
  proof -
    have "generateToken jwt c \<lparr>sub = Users.Id u, email = Users.email u\<rparr> now =
        Inr \<lparr>payload = \<lparr>sub = Users.Id u, email = Users.email u\<rparr>, iat = now,
             expiry = Some (int now + d), signed_with = secretOrKey s\<rparr>"
      using secret lifetime by (simp add: generateToken_Inr)
    then show ?thesis
      by (simp add: login_right_password [OF found accepted])
  qed
  have resolve: "payload (access_token r) = \<lparr>sub = Users.Id u, email = Users.email u\<rparr>
      \<and> db' = db
      \<and> authenticate s (access_token r) now' db =
          (Inr \<lparr>userId = Users.Id u, name = Users.name u, email = Users.email u,
                role = Users.role u\<rparr>, db)"
    if run: "login b jwt c dto now db = (Inr r, db')"
      and unexpired: "case expiry (access_token r) of None \<Rightarrow> True | Some x \<Rightarrow> int now' < x"
    for r db'
  proof (cases "validatePassword b (LoginDto.password dto) (Users.password u)")
    case False
    then show ?thesis
      using run login_wrong_password [OF found False, of jwt c now] by simp
  next
    case True
    note step = login_right_password [OF found True, of jwt c now]
    show ?thesis
    proof (cases "generateToken jwt c \<lparr>sub = Users.Id u, email = Users.email u\<rparr> now")
      case (Inl x)
      then show ?thesis using run step by simp
    next
      case (Inr t)
      have r: "r = \<lparr>access_token = t\<rparr>" and db': "db' = db"
        using run step Inr by simp_all
      obtain k where k: "JWT_SECRET c = Some k"
        and t: "payload t = \<lparr>sub = Users.Id u, email = Users.email u\<rparr>" "signed_with t = k"
        using Inr by (auto simp: generateToken_Inr)
      have "signed_with t = secretOrKey s"
        using k t(2) secret(1) by simp
      then have "verify t (secretOrKey s) now' =
          Some \<lparr>sub = Users.Id u, email = Users.email u\<rparr>"
        using unexpired t(1) by (simp add: verify_def r)
      then show ?thesis
        using by_id by (simp add: authenticate_def validate_def r db' t(1))
    qed
  qed
  show ?thesis
    using issue resolve by blast
qed

theorem login_then_authenticate_witness:
  "login stub_bcrypt stub_jwt jane_config
      \<lparr>LoginDto.email = ''jane@x.com'', password = ''secret12''\<rparr> 7 jane_db =
     (Inr \<lparr>access_token = jane_token\<rparr>, jane_db)
   \<and> authenticate \<lparr>secretOrKey = ''s3cret''\<rparr> jane_token 7 jane_db =
     (Inr \<lparr>userId = 1, name = ''Jane'', email = ''jane@x.com'', role = Role.user\<rparr>, jane_db)"
proof -
  have ids: "distinct (map Users.Id (users jane_db))"
    by (simp add: jane_db_def)
  have mails: "distinct (map (\<lambda>u. collation jane_db (Users.email u)) (users jane_db))"
    by (simp add: jane_db_def)
  have row: "jane_row \<in> set (users jane_db)"
    by (simp add: jane_db_def)
  have mail: "LoginDto.email \<lparr>LoginDto.email = ''jane@x.com'', password = ''secret12''\<rparr> =
      Users.email jane_row"
    by (simp add: jane_row_def)
  have constructed: "JwtStrategy_constructor jane_config = Inr \<lparr>secretOrKey = ''s3cret''\<rparr>"
    by (simp add: JwtStrategy_constructor_def jane_config_def)
  note both = login_then_authenticate [OF ids mails row mail constructed,
      of stub_bcrypt "''1h''" stub_jwt 3600 7 7]
  have accepted: "validatePassword stub_bcrypt
        (LoginDto.password \<lparr>LoginDto.email = ''jane@x.com'', password = ''secret12''\<rparr>)
        (Users.password jane_row)
      \<and> JWT_EXPIRES_IN jane_config = Some ''1h'' \<and> ''1h'' \<noteq> []
      \<and> timespan stub_jwt ''1h'' = Some 3600"
    by (simp add: validatePassword_def stub_bcrypt_def stub_jwt_def jane_row_def
        jane_config_def)
  have run: "login stub_bcrypt stub_jwt jane_config
      \<lparr>LoginDto.email = ''jane@x.com'', password = ''secret12''\<rparr> 7 jane_db =
      (Inr \<lparr>access_token = jane_token\<rparr>, jane_db)"
    using both [THEN conjunct1] accepted by (simp add: jane_row_def jane_token_def)
  have unexpired: "case expiry (access_token \<lparr>access_token = jane_token\<rparr>) of
      None \<Rightarrow> True | Some x \<Rightarrow> int 7 < x"
    by (simp add: jane_token_def)
  have "authenticate \<lparr>secretOrKey = ''s3cret''\<rparr>
      (access_token \<lparr>access_token = jane_token\<rparr>) 7 jane_db =
      (Inr \<lparr>userId = Users.Id jane_row, name = Users.name jane_row,
             email = Users.email jane_row, role = Users.role jane_row\<rparr>, jane_db)"
    using both [THEN conjunct2, rule_format, of "\<lparr>access_token = jane_token\<rparr>" jane_db]
      run unexpired by blast
  then show ?thesis
    using run by (simp add: jane_row_def)
qed

section \<open>Resolving the identity\<close>

text \<open>
  When a token passes verification and no row of the store has the subject of its
  payload as \<^verbatim>\<open>Id\<close>, resolving the identity fails with the plain error `Unauthorized'
  that \<^verbatim>\<open>validate\<close> throws. Whatever the token and the outcome, \<^verbatim>\<open>validate\<close> and the
  resolution as a whole return the store they were given.
\<close>

lemma authenticate_missing_row:
  "(verify t (secretOrKey s) now = Some p \<and> sub p \<notin> Users.Id ` set (users db) \<longrightarrow>
      authenticate s t now db = (Inl (Error ''Unauthorized''), db))
   \<and> snd (authenticate s' t' now' db) = db
   \<and> snd (validate p' db) = db"
proof -
  have "authenticate s t now db = (Inl (Error ''Unauthorized''), db)"
    if "verify t (secretOrKey s) now = Some p" and "sub p \<notin> Users.Id ` set (users db)"
  proof -
    have "findUnique_Id (sub p) db = None"
      using that(2) by (simp add: findUnique_Id_None)
    then show ?thesis
      using that(1) by (simp add: authenticate_def validate_def)
  qed
  then show ?thesis
    by (simp add: authenticate_store validate_store)
qed

text \<open>
  C5 at a token of Jane that verifies, presented to a store that has no row with her id:
  the resolution fails with the plain error `Unauthorized' of \<^verbatim>\<open>validate\<close>, which is
  answered with status 500, and the store is unchanged. The same token with a signature
  that does not verify is rejected with the \<^verbatim>\<open>UnauthorizedException\<close> of the framework,
  status 401: the two ways of failing to authenticate do not give the same error.
\<close>

theorem validate_throws_plain_error:
  "authenticate \<lparr>secretOrKey = ''s3cret''\<rparr> jane_token 8 empty_db =
     (Inl (Error ''Unauthorized''), empty_db)
   \<and> getStatus (Error ''Unauthorized'') = 500
   \<and> authenticate \<lparr>secretOrKey = ''s3cret''\<rparr> (jane_token\<lparr>signed_with := ''forged''\<rparr>) 8
       empty_db = (Inl UnauthorizedException, empty_db)
   \<and> getStatus UnauthorizedException = 401"
  by (simp add: authenticate_def verify_def validate_def findUnique_Id_def jane_token_def
      empty_db_def)

text \<open>
  C9: \<^verbatim>\<open>validate\<close> reads nothing of the payload but its subject. Two payloads with the
  same subject give the same result, whatever their email claims, and so do two tokens
  that pass verification with such payloads. An identity that \<^verbatim>\<open>validate\<close> returns is
  made of the id, name, email and role of a row of the store whose \<^verbatim>\<open>Id\<close> is the
  subject.
\<close>

theorem validate_reads_subject_only:
  "(sub p1 = sub p2 \<longrightarrow> validate p1 db = validate p2 db)
   \<and> (verify t1 (secretOrKey s) now1 = Some p1 \<and> verify t2 (secretOrKey s) now2 = Some p2
        \<and> sub p1 = sub p2 \<longrightarrow>
      authenticate s t1 now1 db = authenticate s t2 now2 db)
   \<and> (\<forall>i. fst (validate p db) = Inr i \<longrightarrow>
        (\<exists>u. u \<in> set (users db) \<and> Users.Id u = sub p
           \<and> i = \<lparr>userId = Users.Id u, name = Users.name u, email = Users.email u,
                   role = Users.role u\<rparr>))"
proof -
  have same: "validate p1 db = validate p2 db" if "sub p1 = sub p2"
    using that by (simp add: validate_def)
  have from_row: "\<exists>u. u \<in> set (users db) \<and> Users.Id u = sub p
      \<and> i = \<lparr>userId = Users.Id u, name = Users.name u, email = Users.email u,
              role = Users.role u\<rparr>"
    if "fst (validate p db) = Inr i" for i
  proof (cases "findUnique_Id (sub p) db")
    case None
    then show ?thesis using that by (simp add: validate_def)
  next
    case (Some u)
    then have "u \<in> set (users db) \<and> Users.Id u = sub p"
      by (rule findUnique_Id_Some)
    then show ?thesis using that Some by (auto simp: validate_def)
  qed
  show ?thesis
    using same from_row by (simp add: authenticate_def)
qed

theorem validate_reads_subject_only_witness:
  "validate \<lparr>sub = 1, email = ''jane@x.com''\<rparr> jane_db =
     validate \<lparr>sub = 1, email = ''mallory@x.com''\<rparr> jane_db
   \<and> fst (validate \<lparr>sub = 1, email = ''mallory@x.com''\<rparr> jane_db) =
       Inr \<lparr>userId = 1, name = ''Jane'', email = ''jane@x.com'', role = Role.user\<rparr>"
proof -
  have run: "fst (validate \<lparr>sub = 1, email = ''mallory@x.com''\<rparr> jane_db) =
      Inr \<lparr>userId = 1, name = ''Jane'', email = ''jane@x.com'', role = Role.user\<rparr>"
    by (simp add: validate_def findUnique_Id_def jane_db_def jane_row_def)
  show ?thesis
    using run validate_reads_subject_only [of "\<lparr>sub = 1, email = ''jane@x.com''\<rparr>"
        "\<lparr>sub = 1, email = ''mallory@x.com''\<rparr>" jane_db]
    by simp
qed

section \<open>Authorization\<close>

text \<open>
  C6, as the code has it: the guard lets a request pass exactly when the handler has no
  roles metadata or the role of the identity is one of the listed roles. The check is
  flat: an identity with role user does not pass a handler that lists admin, an identity
  with role admin passes it, and admin does not pass a handler that lists only user. A
  handler without metadata lets every identity pass, while a handler whose list of roles
  is empty lets nobody pass.
\<close>

theorem canActivate_flat_membership:
  "canActivate roles u = (roles = None \<or> Role_value (Identity.role u) \<in> set (the roles))
   \<and> canActivate (Some [''admin'']) (u\<lparr>Identity.role := Role.user\<rparr>) = False
   \<and> canActivate (Some [''admin'']) (u\<lparr>Identity.role := Role.admin\<rparr>) = True
   \<and> canActivate (Some [''user'']) (u\<lparr>Identity.role := Role.admin\<rparr>) = False
   \<and> canActivate None u = True
   \<and> canActivate (Some []) u = False"
  by (cases roles) (simp_all add: canActivate_def)

text \<open>
  C6 as the specification words it: an empty set of required roles authorizes every
  identity. It fails for the empty list of roles, at an identity with role admin.
\<close>

theorem canActivate_empty_roles_counterexample:
  "\<not> canActivate (Some [])
      \<lparr>userId = 1, name = ''Jane'', email = ''jane@x.com'', role = Role.admin\<rparr>"
  by (simp add: canActivate_def)

section \<open>Configuration and error classes\<close>




text \<open>
  C10: the failure of \<^verbatim>\<open>register\<close> on an email that is taken and the failure of
  \<^verbatim>\<open>login\<close> on credentials that do not match are both a \<^verbatim>\<open>BadRequestException\<close>, with
  status 400, and differ in the message only: `User already exists' and
  `Invalid credentials'. No error of \<^verbatim>\<open>login\<close> has status 401: besides the bad request
  it can only fail with a plain error of the signing library.
\<close>

theorem failures_are_bad_requests:
  "(RegisterDto.email rdto \<in> Users.email ` set (users db) \<longrightarrow>
      fst (register b rdto drawn now db) = Inl (BadRequestException ''User already exists''))
   \<and> ((\<forall>u. checkExistingUser (LoginDto.email dto) db = Some u \<longrightarrow>
          \<not> validatePassword b (LoginDto.password dto) (Users.password u)) \<longrightarrow>
      fst (login b jwt c dto now' db) = Inl (BadRequestException ''Invalid credentials''))
   \<and> (\<forall>e. fst (login b jwt c dto now' db) = Inl e \<longrightarrow>
        (e = BadRequestException ''Invalid credentials'' \<or> (\<exists>m. e = Error m))
        \<and> getStatus e \<noteq> 401)
   \<and> getStatus (BadRequestException ''User already exists'') = 400
   \<and> getStatus (BadRequestException ''Invalid credentials'') = 400
   \<and> BadRequestException ''User already exists'' \<noteq> BadRequestException ''Invalid credentials''"
proof -
  have reg: "fst (register b rdto drawn now db) =
      Inl (BadRequestException ''User already exists'')"
    if "RegisterDto.email rdto \<in> Users.email ` set (users db)"
  proof -
    from that obtain u where "checkExistingUser (RegisterDto.email rdto) db = Some u"
      using findUnique_email_exact by (auto simp: checkExistingUser_def)
    then show ?thesis by (simp add: register_existing)
  qed
  have mismatch: "fst (login b jwt c dto now' db) =
      Inl (BadRequestException ''Invalid credentials'')"
    if "\<forall>u. checkExistingUser (LoginDto.email dto) db = Some u \<longrightarrow>
          \<not> validatePassword b (LoginDto.password dto) (Users.password u)"
    using that by (cases "checkExistingUser (LoginDto.email dto) db")
      (simp_all add: login_absent login_wrong_password)
  have errors: "e = BadRequestException ''Invalid credentials'' \<or> (\<exists>m. e = Error m)"
    if run: "fst (login b jwt c dto now' db) = Inl e" for e
  proof (cases "checkExistingUser (LoginDto.email dto) db")
    case None
    then show ?thesis using run by (simp add: login_absent)
  next
    case (Some u)
    show ?thesis
    proof (cases "validatePassword b (LoginDto.password dto) (Users.password u)")
      case False
      show ?thesis
        using run by (simp add: login_wrong_password [OF Some False])
    next
      case True
      note step = login_right_password [OF Some True, of jwt c now']
      show ?thesis
      proof (cases "generateToken jwt c \<lparr>sub = Users.Id u, email = Users.email u\<rparr> now'")
        case (Inl x)
        then have "e = x" using run step by simp
        then show ?thesis using generateToken_Inl [OF Inl] by simp
      next
        case (Inr t)
        then show ?thesis using run step by simp
      qed
    qed
  qed
  have status: "getStatus e \<noteq> 401" if "fst (login b jwt c dto now' db) = Inl e" for e
    using errors [OF that] by auto
  show ?thesis
    using reg mismatch errors status by simp
qed

theorem failures_are_bad_requests_witness:
  "fst (register stub_bcrypt jane ''pepper'' 9 jane_db) =
     Inl (BadRequestException ''User already exists'')
   \<and> fst (login stub_bcrypt stub_jwt jane_config
        \<lparr>LoginDto.email = ''jane@x.com'', password = ''wrong''\<rparr> 7 jane_db) =
       Inl (BadRequestException ''Invalid credentials'')
   \<and> getStatus (BadRequestException ''Invalid credentials'') \<noteq> 401"
proof -
  have taken: "RegisterDto.email jane \<in> Users.email ` set (users jane_db)"
    by (simp add: jane_def jane_db_def jane_row_def)
  have mismatch: "\<forall>u. checkExistingUser
        (LoginDto.email \<lparr>LoginDto.email = ''jane@x.com'', password = ''wrong''\<rparr>) jane_db =
        Some u \<longrightarrow>
      \<not> validatePassword stub_bcrypt
          (LoginDto.password \<lparr>LoginDto.email = ''jane@x.com'', password = ''wrong''\<rparr>)
          (Users.password u)"
    by (simp add: checkExistingUser_def findUnique_email_def validatePassword_def
        stub_bcrypt_def jane_db_def jane_row_def)
  note all = failures_are_bad_requests [of jane jane_db stub_bcrypt "''pepper''" 9
      "\<lparr>LoginDto.email = ''jane@x.com'', password = ''wrong''\<rparr>" stub_jwt jane_config 7]
  have a: "fst (register stub_bcrypt jane ''pepper'' 9 jane_db) =
      Inl (BadRequestException ''User already exists'')"
    using taken all [THEN conjunct1] by blast
  have b: "fst (login stub_bcrypt stub_jwt jane_config
      \<lparr>LoginDto.email = ''jane@x.com'', password = ''wrong''\<rparr> 7 jane_db) =
      Inl (BadRequestException ''Invalid credentials'')"
    using mismatch all [THEN conjunct2, THEN conjunct1] by blast
  show ?thesis
    using a b by simp
qed

end
